theory Spec2Isabelle
  imports Main
begin

section \<open>The request handlers of the store application (store/views.py)\<close>

text \<open>
  The viewsets of \<^verbatim>\<open>src/my_ecommerce_app/store/views.py\<close> are embedded as functions
  over an explicit database state. A handler takes the database and the request, and
  returns what the Python method does: the response it returns or the exception it
  raises, together with the database afterwards. What the handlers call in Django and
  in the REST framework (managers, \<^verbatim>\<open>get\<close>, \<^verbatim>\<open>count\<close>, the generic
  \<^verbatim>\<open>destroy\<close>, the permission classes) is written out next to them, at the level the
  handlers use it. The serializer classes live in \<^verbatim>\<open>serializers.py\<close> and the
  models in \<^verbatim>\<open>models.py\<close>, outside the sources this development covers: a handler
  that calls a serializer, or that deletes a row, takes the operations it leaves to them
  as arguments. The permission classes of a viewset are checked before its handler runs;
  the handlers are described as called.
\<close>

subsection \<open>Python values: exceptions, users, requests, responses\<close>

type_synonym pk = int

datatype error =
    TypeError
  | KeyError
  | UnboundLocalError
  | DoesNotExist
  | MultipleObjectsReturned
  | Http404
  | ValidationError
  | PermissionDenied
  | ProtectedError

text \<open>
  \<^verbatim>\<open>request.user\<close>: a user row, or \<^verbatim>\<open>AnonymousUser\<close>, whose \<^verbatim>\<open>id\<close> is
  \<^verbatim>\<open>None\<close> and whose \<^verbatim>\<open>is_staff\<close> and \<^verbatim>\<open>is_authenticated\<close> are false.
\<close>

record User =
  user_id :: "pk option"
  is_staff :: bool
  is_authenticated :: bool

definition AnonymousUser :: User where
  "AnonymousUser = \<lparr>user_id = None, is_staff = False, is_authenticated = False\<rparr>"

record 'd Request =
  req_method :: string
  req_user :: User
  req_data :: 'd

text \<open>
  What a \<^verbatim>\<open>Response\<close> carries: nothing, a text, a dictionary of texts, or the
  \<^verbatim>\<open>.data\<close> of a serializer (of type \<open>'r\<close>, the representation the serializer
  produces). \<^verbatim>\<open>Response(data)\<close> without a status is a 200.
\<close>

datatype 'r body = NoData | Text string | Dict "(string \<times> string) list" | Data 'r

record 'r Response =
  resp_data :: "'r body"
  resp_status :: nat

definition HTTP_200_OK :: nat where "HTTP_200_OK = 200"
definition HTTP_201_CREATED :: nat where "HTTP_201_CREATED = 201"
definition HTTP_204_NO_CONTENT :: nat where "HTTP_204_NO_CONTENT = 204"
definition HTTP_405_METHOD_NOT_ALLOWED :: nat where "HTTP_405_METHOD_NOT_ALLOWED = 405"

datatype 'r outcome = Returned "'r Response" | Raised error

definition is_client_error :: "nat \<Rightarrow> bool" where
  "is_client_error s = (400 \<le> s \<and> s < 500)"

text \<open>
  The REST framework's \<^verbatim>\<open>exception_handler\<close>: an \<^verbatim>\<open>APIException\<close>, an
  \<^verbatim>\<open>Http404\<close> and a \<^verbatim>\<open>PermissionDenied\<close> are answered with their status code; for
  every other exception it returns \<^verbatim>\<open>None\<close>, the view raises the exception again and the
  request ends as a server error.
\<close>

fun exception_handler :: "error \<Rightarrow> nat option" where
  "exception_handler Http404 = Some 404"
| "exception_handler ValidationError = Some 400"
| "exception_handler PermissionDenied = Some 403"
| "exception_handler _ = None"

definition final_status :: "'r outcome \<Rightarrow> nat" where
  "final_status out =
     (case out of
        Returned r \<Rightarrow> resp_status r
      | Raised e \<Rightarrow> (case exception_handler e of Some s \<Rightarrow> s | None \<Rightarrow> 500))"

subsection \<open>The tables\<close>

text \<open>
  A row has the columns the views name: its primary key and the foreign keys they filter
  on. The key of a cart is left as a type parameter, and a customer carries its remaining
  columns in \<open>Customer_fields\<close>.
\<close>

record Product =
  Product_pk :: pk
  Product_collection_id :: pk

record OrderItem =
  OrderItem_pk :: pk
  OrderItem_product_id :: pk

record Collection =
  Collection_pk :: pk

record Review =
  Review_pk :: pk
  Review_product_id :: pk

record 'c CartItem =
  CartItem_pk :: pk
  CartItem_cart_id :: 'c

record 'f Customer =
  Customer_pk :: pk
  Customer_user_id :: pk
  Customer_fields :: 'f

record Order =
  Order_pk :: pk
  Order_customer_id :: pk

record ('c, 'f) Database =
  Product_objects :: "Product list"
  OrderItem_objects :: "OrderItem list"
  Collection_objects :: "Collection list"
  Review_objects :: "Review list"
  CartItem_objects :: "'c CartItem list"
  Customer_objects :: "'f Customer list"
  Order_objects :: "Order list"

subsection \<open>Managers and querysets\<close>

text \<open>\<^verbatim>\<open>qs.filter(...)\<close> keeps the rows that satisfy the lookup.\<close>

definition objects_filter :: "('a \<Rightarrow> bool) \<Rightarrow> 'a list \<Rightarrow> 'a list" where
  "objects_filter lookup rows = filter lookup rows"

text \<open>
  \<^verbatim>\<open>QuerySet.count(self)\<close> has no parameter but \<^verbatim>\<open>self\<close>, and a manager passes its
  arguments on to the queryset unchanged: a call with a positional argument raises
  \<^verbatim>\<open>TypeError\<close> before any row is counted. The second argument is the list of the
  call's positional arguments.
\<close>

definition objects_count :: "'a list \<Rightarrow> string list \<Rightarrow> error + nat" where
  "objects_count rows args = (if args = [] then Inr (length rows) else Inl TypeError)"

text \<open>\<^verbatim>\<open>qs.get(...)\<close>: the one row that satisfies the lookup.\<close>

definition objects_get :: "('a \<Rightarrow> bool) \<Rightarrow> 'a list \<Rightarrow> error + 'a" where
  "objects_get lookup rows =
     (case objects_filter lookup rows of
        [] \<Rightarrow> Inl DoesNotExist
      | [x] \<Rightarrow> Inr x
      | _ \<Rightarrow> Inl MultipleObjectsReturned)"

text \<open>\<^verbatim>\<open>kwargs["name"]\<close>: the value the URL pattern captured under that name.\<close>

definition kwargs_item :: "(string \<rightharpoonup> 'k) \<Rightarrow> string \<Rightarrow> error + 'k" where
  "kwargs_item kwargs name = (case kwargs name of None \<Rightarrow> Inl KeyError | Some v \<Rightarrow> Inr v)"

subsection \<open>The generic destroy of a ModelViewSet\<close>

text \<open>
  \<^verbatim>\<open>get_object\<close> looks the row up by \<^verbatim>\<open>kwargs["pk"]\<close> in the filtered queryset of the
  viewset; \<^verbatim>\<open>get_object_or_404\<close> turns \<^verbatim>\<open>DoesNotExist\<close> into \<^verbatim>\<open>Http404\<close>.
  The object-level check that ends \<^verbatim>\<open>get_object\<close> belongs to the permission classes,
  like their check of the request.
\<close>

definition get_object :: "('a \<Rightarrow> pk) \<Rightarrow> 'a list \<Rightarrow> (string \<rightharpoonup> pk) \<Rightarrow> error + 'a" where
  "get_object pk_of queryset kwargs =
     (case kwargs_item kwargs ''pk'' of
        Inl e \<Rightarrow> Inl e
      | Inr k \<Rightarrow>
          (case objects_get (\<lambda>x. pk_of x = k) queryset of
             Inl DoesNotExist \<Rightarrow> Inl Http404
           | Inl e \<Rightarrow> Inl e
           | Inr x \<Rightarrow> Inr x))"

text \<open>
  \<^verbatim>\<open>instance.delete()\<close>. Django first collects the rows of other tables that reference
  the instance, by the \<^verbatim>\<open>on_delete\<close> rule of each relation: \<open>collect\<close> raises
  \<^verbatim>\<open>ProtectedError\<close> where a protected relation still has rows, and otherwise gives
  the database without the rows that go with the instance. Then \<open>remove\<close> takes the row
  of the instance out of its own table.
\<close>

definition Model_delete ::
  "(pk \<Rightarrow> 's \<Rightarrow> error + 's) \<Rightarrow> (pk \<Rightarrow> 's \<Rightarrow> 's) \<Rightarrow> pk \<Rightarrow> 's \<Rightarrow> error + 's" where
  "Model_delete collect remove k db =
     (case collect k db of Inl e \<Rightarrow> Inl e | Inr db' \<Rightarrow> Inr (remove k db'))"

definition Product_remove :: "pk \<Rightarrow> ('c, 'f) Database \<Rightarrow> ('c, 'f) Database" where
  "Product_remove k db =
     db\<lparr>Product_objects := filter (\<lambda>x. Product_pk x \<noteq> k) (Product_objects db)\<rparr>"

definition Collection_remove :: "pk \<Rightarrow> ('c, 'f) Database \<Rightarrow> ('c, 'f) Database" where
  "Collection_remove k db =
     db\<lparr>Collection_objects := filter (\<lambda>x. Collection_pk x \<noteq> k) (Collection_objects db)\<rparr>"

text \<open>
  \<^verbatim>\<open>DestroyModelMixin.destroy\<close>: \<^verbatim>\<open>get_object\<close>, then \<^verbatim>\<open>instance.delete()\<close>,
  then an empty 204.
\<close>

definition DestroyModelMixin_destroy ::
  "('a \<Rightarrow> pk) \<Rightarrow> 'a list \<Rightarrow> (pk \<Rightarrow> 's \<Rightarrow> error + 's) \<Rightarrow> 's \<Rightarrow> (string \<rightharpoonup> pk) \<Rightarrow>
     'r outcome \<times> 's" where
  "DestroyModelMixin_destroy pk_of queryset delete db kwargs =
     (case get_object pk_of queryset kwargs of
        Inl e \<Rightarrow> (Raised e, db)
      | Inr instance \<Rightarrow>
          (case delete (pk_of instance) db of
             Inl e \<Rightarrow> (Raised e, db)
           | Inr db' \<Rightarrow>
               (Returned \<lparr>resp_data = NoData, resp_status = HTTP_204_NO_CONTENT\<rparr>, db')))"

subsection \<open>ProductViewSet and CollectionViewSet\<close>

text \<open>
  \<^verbatim>\<open>ProductViewSet.destroy\<close> (lines 55 to 64). \<open>filter_queryset\<close> is what the
  viewset's filter backends (line 45) make of \<^verbatim>\<open>Product.objects.all()\<close> for this
  request; \<^verbatim>\<open>get_object\<close> searches the filtered queryset. \<open>collect\<close> is the
  collection step of deleting a product.
\<close>

definition ProductViewSet_destroy ::
  "('d Request \<Rightarrow> Product list \<Rightarrow> Product list) \<Rightarrow>
     (pk \<Rightarrow> ('c, 'f) Database \<Rightarrow> error + ('c, 'f) Database) \<Rightarrow> ('c, 'f) Database \<Rightarrow>
     'd Request \<Rightarrow> (string \<rightharpoonup> pk) \<Rightarrow> 'r outcome \<times> ('c, 'f) Database" where
  "ProductViewSet_destroy filter_queryset collect db request kwargs =
     (case kwargs_item kwargs ''pk'' of
        Inl e \<Rightarrow> (Raised e, db)
      | Inr k \<Rightarrow>
          (case objects_count
                  (objects_filter (\<lambda>i. OrderItem_product_id i = k) (OrderItem_objects db)) [] of
             Inl e \<Rightarrow> (Raised e, db)
           | Inr n \<Rightarrow>
               if n > 0 then
                 (Returned
                    \<lparr>resp_data =
                       Dict [(''error'',
                         ''Can't delete products as it contains one or more order items.'')],
                     resp_status = HTTP_405_METHOD_NOT_ALLOWED\<rparr>,
                  db)
               else
                 DestroyModelMixin_destroy Product_pk
                   (filter_queryset request (Product_objects db))
                   (Model_delete collect Product_remove) db kwargs))"

text \<open>
  \<^verbatim>\<open>CollectionViewSet.destroy\<close> (lines 72 to 81). The guard is
  \<^verbatim>\<open>Collection.objects.count("products") > 0\<close>: a count over the collections, called
  with one positional argument. The queryset of the viewset annotates every collection
  with its number of products and drops none. \<open>collect\<close> is the collection step of
  deleting a collection.
\<close>

definition CollectionViewSet_destroy ::
  "(pk \<Rightarrow> ('c, 'f) Database \<Rightarrow> error + ('c, 'f) Database) \<Rightarrow> ('c, 'f) Database \<Rightarrow>
     'd Request \<Rightarrow> (string \<rightharpoonup> pk) \<Rightarrow> 'r outcome \<times> ('c, 'f) Database" where
  "CollectionViewSet_destroy collect db request kwargs =
     (case objects_count (Collection_objects db) [''products''] of
        Inl e \<Rightarrow> (Raised e, db)
      | Inr n \<Rightarrow>
          if n > 0 then
            (Returned
               \<lparr>resp_data =
                  Dict [(''error'',
                    ''Can't delete collection as it contains one or more products.'')],
                resp_status = HTTP_405_METHOD_NOT_ALLOWED\<rparr>,
             db)
          else
            DestroyModelMixin_destroy Collection_pk (Collection_objects db)
              (Model_delete collect Collection_remove) db kwargs)"

subsection \<open>ReviewViewSet and CartItemViewSet\<close>

datatype serializer_class =
    ProductSerializer
  | CollectionSerializer
  | ReviewSerializer
  | CartSerializer
  | CartItemSerializer
  | AddCartItemSerializer
  | UpdateCartItemSerializer
  | CustomerSerializer
  | OrderSerializer
  | CreateOrderSerializer
  | UpdateOrderSerializer

text \<open>\<^verbatim>\<open>ReviewViewSet.get_queryset\<close> (lines 87 and 88).\<close>

definition ReviewViewSet_get_queryset ::
  "('c, 'f) Database \<Rightarrow> (string \<rightharpoonup> pk) \<Rightarrow> error + Review list" where
  "ReviewViewSet_get_queryset db kwargs =
     (case kwargs_item kwargs ''product_pk'' of
        Inl e \<Rightarrow> Inl e
      | Inr k \<Rightarrow> Inr (objects_filter (\<lambda>r. Review_product_id r = k) (Review_objects db)))"

text \<open>
  \<^verbatim>\<open>CartItemViewSet.get_serializer_class\<close> (lines 107 to 112);
  \<^verbatim>\<open>request.method\<close> is the verb in upper case.
\<close>

definition CartItemViewSet_get_serializer_class :: "'d Request \<Rightarrow> serializer_class" where
  "CartItemViewSet_get_serializer_class request =
     (if req_method request = ''POST'' then AddCartItemSerializer
      else if req_method request = ''PATCH'' then UpdateCartItemSerializer
      else CartItemSerializer)"

text \<open>
  \<^verbatim>\<open>CartItemViewSet.get_queryset\<close> (lines 114 to 117). \<^verbatim>\<open>select_related\<close> joins
  the product of each item in the same query; it keeps and drops no row.
\<close>

definition select_related :: "string \<Rightarrow> 'a list \<Rightarrow> 'a list" where
  "select_related field rows = rows"

definition CartItemViewSet_get_queryset ::
  "('c, 'f) Database \<Rightarrow> (string \<rightharpoonup> 'c) \<Rightarrow> error + 'c CartItem list" where
  "CartItemViewSet_get_queryset db kwargs =
     (case kwargs_item kwargs ''cart_pk'' of
        Inl e \<Rightarrow> Inl e
      | Inr k \<Rightarrow>
          Inr (select_related ''product''
                 (objects_filter (\<lambda>i. CartItem_cart_id i = k) (CartItem_objects db))))"

subsection \<open>Permissions\<close>

text \<open>
  The permission classes of the REST framework that the views instantiate, and
  \<^verbatim>\<open>check_permissions\<close>, which lets a request through when every permission of
  \<^verbatim>\<open>get_permissions()\<close> grants it.
\<close>

datatype permission = AllowAny | IsAuthenticated | IsAdminUser

fun has_permission :: "permission \<Rightarrow> 'd Request \<Rightarrow> bool" where
  "has_permission AllowAny request = True"
| "has_permission IsAuthenticated request = is_authenticated (req_user request)"
| "has_permission IsAdminUser request = is_staff (req_user request)"

definition check_permissions :: "permission list \<Rightarrow> 'd Request \<Rightarrow> bool" where
  "check_permissions permissions request = list_all (\<lambda>p. has_permission p request) permissions"

subsection \<open>CustomerViewSet\<close>

text \<open>
  \<^verbatim>\<open>CustomerViewSet.get_permissions\<close> (lines 128 to 131). The first argument is
  \<^verbatim>\<open>self.permission_classes\<close>: \<^verbatim>\<open>[IsAdminUser]\<close> on the class (line 126), or what
  an \<^verbatim>\<open>@action\<close> decorator sets for its action. The method does not read it.
\<close>

definition CustomerViewSet_get_permissions :: "'p list \<Rightarrow> 'd Request \<Rightarrow> permission list" where
  "CustomerViewSet_get_permissions permission_classes request =
     (if req_method request = ''GET'' then [AllowAny] else [IsAuthenticated])"

text \<open>
  \<^verbatim>\<open>instance.save()\<close> on a customer: the row with the key of the instance is
  overwritten; when the table has no row with that key, the instance is inserted.
\<close>

definition Customer_save :: "'f Customer \<Rightarrow> ('c, 'f) Database \<Rightarrow> ('c, 'f) Database" where
  "Customer_save instance db =
     db\<lparr>Customer_objects :=
          (if list_ex (\<lambda>r. Customer_pk r = Customer_pk instance) (Customer_objects db)
           then map (\<lambda>r. if Customer_pk r = Customer_pk instance then instance else r)
                  (Customer_objects db)
           else Customer_objects db @ [instance])\<rparr>"

text \<open>
  \<^verbatim>\<open>CustomerViewSet.me\<close> (lines 133 to 145). The three arguments in front are
  \<^verbatim>\<open>CustomerSerializer\<close>: \<open>run_validation\<close> gives the validated data of a payload, or
  \<open>None\<close> where \<^verbatim>\<open>is_valid(raise_exception=True)\<close> raises; \<open>set_attrs\<close> is what
  \<^verbatim>\<open>serializer.save()\<close> writes on the instance before it calls \<^verbatim>\<open>instance.save()\<close>;
  \<open>to_representation\<close> is \<^verbatim>\<open>serializer.data\<close>. Under a verb that is neither GET nor
  PUT the name \<^verbatim>\<open>serializer\<close> is unbound at line 145.
\<close>

definition CustomerViewSet_me ::
  "('d \<Rightarrow> 'v option) \<Rightarrow> ('f Customer \<Rightarrow> 'v \<Rightarrow> 'f Customer) \<Rightarrow> ('f Customer \<Rightarrow> 'r) \<Rightarrow>
     ('c, 'f) Database \<Rightarrow> 'd Request \<Rightarrow> 'r outcome \<times> ('c, 'f) Database" where
  "CustomerViewSet_me run_validation set_attrs to_representation db request =
     (case objects_get (\<lambda>c. Some (Customer_user_id c) = user_id (req_user request))
             (Customer_objects db) of
        Inl e \<Rightarrow> (Raised e, db)
      | Inr customer \<Rightarrow>
          if req_method request = ''GET'' then
            (Returned \<lparr>resp_data = Data (to_representation customer),
                       resp_status = HTTP_200_OK\<rparr>, db)
          else if req_method request = ''PUT'' then
            (case run_validation (req_data request) of
               None \<Rightarrow> (Raised ValidationError, db)
             | Some validated_data \<Rightarrow>
                 (let instance = set_attrs customer validated_data in
                  (Returned \<lparr>resp_data = Data (to_representation instance),
                             resp_status = HTTP_200_OK\<rparr>,
                   Customer_save instance db)))
          else (Raised UnboundLocalError, db))"


subsection \<open>OrderViewSet\<close>

text \<open>
  \<^verbatim>\<open>OrderViewSet.create\<close> (lines 160 to 168). \<open>is_valid\<close> and \<open>save\<close> are
  \<^verbatim>\<open>CreateOrderSerializer\<close>, built with the payload and the id of the user as context;
  \<open>save\<close> returns the order it stored, or raises, and the database it leaves.
  \<open>order_data\<close> is \<^verbatim>\<open>OrderSerializer(order).data\<close>, of type \<open>'r\<close>; the payload has
  type \<open>'d\<close>.
\<close>

definition OrderViewSet_create ::
  "(pk option \<Rightarrow> 'd \<Rightarrow> 's \<Rightarrow> bool) \<Rightarrow> (pk option \<Rightarrow> 'd \<Rightarrow> 's \<Rightarrow> (error + Order) \<times> 's) \<Rightarrow>
     (Order \<Rightarrow> 's \<Rightarrow> 'r) \<Rightarrow> 's \<Rightarrow> 'd Request \<Rightarrow> 'r outcome \<times> 's" where
  "OrderViewSet_create is_valid save order_data db request =
     (if \<not> is_valid (user_id (req_user request)) (req_data request) db then
        (Raised ValidationError, db)
      else
        (case save (user_id (req_user request)) (req_data request) db of
           (Inl e, db') \<Rightarrow> (Raised e, db')
         | (Inr order, db') \<Rightarrow>
             (Returned \<lparr>resp_data = Data (order_data order db'),
                        resp_status = HTTP_201_CREATED\<rparr>, db')))"

text \<open>
  \<^verbatim>\<open>OrderViewSet.get_queryset\<close> (lines 177 to 184). \<^verbatim>\<open>only("id")\<close> defers the other
  columns of the customer and selects the same row. Line 183 binds the customer itself to
  \<^verbatim>\<open>customer_id\<close>; the filter of line 184 compares the column with the key of a model
  instance it is given.
\<close>

definition OrderViewSet_get_queryset ::
  "('c, 'f) Database \<Rightarrow> 'd Request \<Rightarrow> error + Order list" where
  "OrderViewSet_get_queryset db request =
     (let user = req_user request in
      if is_staff user then Inr (Order_objects db)
      else
        (case objects_get (\<lambda>c. Some (Customer_user_id c) = user_id user)
                (Customer_objects db) of
           Inl e \<Rightarrow> Inl e
         | Inr customer_id \<Rightarrow>
             Inr (objects_filter (\<lambda>ord. Order_customer_id ord = Customer_pk customer_id)
                    (Order_objects db))))"

subsection \<open>A small shop, for concrete evaluation\<close>

text \<open>
  Two products, the first of them on an order line; two customers, of the users 7 and 8;
  three orders, two of them of the first customer. Cart keys and the remaining columns
  of a customer are texts here.
\<close>

definition shop :: "(string, string) Database" where
  "shop =
     \<lparr>Product_objects =
        [\<lparr>Product_pk = 1, Product_collection_id = 10\<rparr>,
         \<lparr>Product_pk = 2, Product_collection_id = 10\<rparr>],
      OrderItem_objects = [\<lparr>OrderItem_pk = 100, OrderItem_product_id = 1\<rparr>],
      Collection_objects = [\<lparr>Collection_pk = 10\<rparr>, \<lparr>Collection_pk = 11\<rparr>],
      Review_objects =
        [\<lparr>Review_pk = 1, Review_product_id = 1\<rparr>,
         \<lparr>Review_pk = 2, Review_product_id = 2\<rparr>,
         \<lparr>Review_pk = 3, Review_product_id = 1\<rparr>],
      CartItem_objects =
        [\<lparr>CartItem_pk = 1, CartItem_cart_id = ''a1''\<rparr>,
         \<lparr>CartItem_pk = 2, CartItem_cart_id = ''b2''\<rparr>,
         \<lparr>CartItem_pk = 3, CartItem_cart_id = ''a1''\<rparr>],
      Customer_objects =
        [\<lparr>Customer_pk = 5, Customer_user_id = 7, Customer_fields = ''555-0100''\<rparr>,
         \<lparr>Customer_pk = 6, Customer_user_id = 8, Customer_fields = ''555-0101''\<rparr>],
      Order_objects =
        [\<lparr>Order_pk = 1, Order_customer_id = 5\<rparr>,
         \<lparr>Order_pk = 2, Order_customer_id = 6\<rparr>,
         \<lparr>Order_pk = 3, Order_customer_id = 5\<rparr>]\<rparr>"

text \<open>
  Deleting a product of the shop takes its reviews along; an order line protects its
  product. Nothing protects a collection here.
\<close>

definition shop_collect_product ::
  "pk \<Rightarrow> (string, string) Database \<Rightarrow> error + (string, string) Database" where
  "shop_collect_product k db =
     (if list_ex (\<lambda>i. OrderItem_product_id i = k) (OrderItem_objects db) then Inl ProtectedError
      else Inr (db\<lparr>Review_objects := filter (\<lambda>r. Review_product_id r \<noteq> k) (Review_objects db)\<rparr>))"

definition shop_collect_collection ::
  "pk \<Rightarrow> (string, string) Database \<Rightarrow> error + (string, string) Database" where
  "shop_collect_collection k db = Inr db"

text \<open>A request of a logged-in user, and the request of a visitor who is not logged in.\<close>

definition request_of :: "string \<Rightarrow> pk \<Rightarrow> bool \<Rightarrow> string \<Rightarrow> string Request" where
  "request_of verb uid staff payload =
     \<lparr>req_method = verb,
      req_user = \<lparr>user_id = Some uid, is_staff = staff, is_authenticated = True\<rparr>,
      req_data = payload\<rparr>"

definition anonymous_request :: "string \<Rightarrow> string \<Rightarrow> string Request" where
  "anonymous_request verb payload =
     \<lparr>req_method = verb, req_user = AnonymousUser, req_data = payload\<rparr>"

text \<open>
  A customer serializer for the shop: the payload is the new text of the remaining
  columns, an empty payload is invalid, and the representation lists the three columns.
\<close>

definition shop_run_validation :: "string \<Rightarrow> string option" where
  "shop_run_validation payload = (if payload = [] then None else Some payload)"

definition shop_set_attrs :: "string Customer \<Rightarrow> string \<Rightarrow> string Customer" where
  "shop_set_attrs customer validated_data = customer\<lparr>Customer_fields := validated_data\<rparr>"

definition shop_to_representation :: "string Customer \<Rightarrow> pk \<times> pk \<times> string" where
  "shop_to_representation customer =
     (Customer_pk customer, Customer_user_id customer, Customer_fields customer)"

text \<open>
  An order serializer pair over a table of orders: a checkout is valid for a logged-in
  user with a non-empty payload, saving appends the order of customer 5, and an order is
  represented by its key and its customer.
\<close>

definition shop_is_valid :: "pk option \<Rightarrow> string \<Rightarrow> Order list \<Rightarrow> bool" where
  "shop_is_valid uid payload orders = (uid \<noteq> None \<and> payload \<noteq> [])"

definition shop_save ::
  "pk option \<Rightarrow> string \<Rightarrow> Order list \<Rightarrow> (error + Order) \<times> Order list" where
  "shop_save uid payload orders =
     (let order = \<lparr>Order_pk = int (length orders) + 1, Order_customer_id = 5\<rparr>
      in (Inr order, orders @ [order]))"

definition shop_order_data :: "Order \<Rightarrow> Order list \<Rightarrow> pk \<times> pk" where
  "shop_order_data order orders = (Order_pk order, Order_customer_id order)"

section \<open>Properties of the handlers\<close>

subsection \<open>Auxiliary facts about querysets\<close>

lemma objects_count_no_args: "objects_count rows [] = Inr (length rows)"
  by (simp add: objects_count_def)

lemma filter_some_iff: "(0 < length (filter P xs)) = (\<exists>x\<in>set xs. P x)"
  by (induction xs) auto

lemma found_row_in_table:
  assumes "filter P rows = [x]"
  shows "x \<in> set rows \<and> P x"
proof -
  have "x \<in> set (filter P rows)" using assms by simp
  then show ?thesis by simp
qed

subsection \<open>Deleting collections and products\<close>

text \<open>
  Claim C1 says that deleting a collection is refused with a client error while a product
  references it, and succeeds otherwise. The handler does neither: the guard calls
  \<^verbatim>\<open>count\<close> with a positional argument, so on every database, request and key the
  handler raises \<^verbatim>\<open>TypeError\<close> before it looks at any product, nothing is deleted, and
  the request ends with status 500, which is not a client error. So it is for collection
  11 of the shop, which exists and has no product.
\<close>

theorem CollectionViewSet_destroy_always_raises:
  "CollectionViewSet_destroy collect db request kwargs = (Raised TypeError, db) \<and>
   final_status (fst (CollectionViewSet_destroy collect db request kwargs)) = 500 \<and>
   \<not> is_client_error 500 \<and>
   list_ex (\<lambda>c. Collection_pk c = 11) (Collection_objects shop) \<and>
   \<not> list_ex (\<lambda>x. Product_collection_id x = 11) (Product_objects shop) \<and>
   CollectionViewSet_destroy shop_collect_collection shop (request_of ''DELETE'' 7 True [])
       [''pk'' \<mapsto> 11] =
     (Raised TypeError :: string outcome, shop)"
  by (simp add: CollectionViewSet_destroy_def objects_count_def final_status_def
      is_client_error_def shop_def)

text \<open>
  Claim C2: a DELETE of the product with key \<open>p\<close>. While an order item references
  \<open>p\<close>, the handler answers with the error dictionary and status 405, a client error,
  and leaves the database as it was. When no order item references \<open>p\<close>, the product is
  found among the products the request's filters keep, and the collection step of the
  deletion goes through with \<open>db'\<close>, the handler answers 204 and the database afterwards
  is \<open>db'\<close> without the product: it has no product with key \<open>p\<close>.
\<close>

theorem ProductViewSet_destroy_guard:
  assumes pk: "kwargs ''pk'' = Some p"
  shows "((\<exists>i\<in>set (OrderItem_objects db). OrderItem_product_id i = p) \<longrightarrow>
            ProductViewSet_destroy filter_queryset collect db request kwargs =
              (Returned
                 \<lparr>resp_data =
                    Dict [(''error'',
                      ''Can't delete products as it contains one or more order items.'')],
                  resp_status = 405\<rparr>, db) \<and>
            is_client_error 405) \<and>
         (\<not> (\<exists>i\<in>set (OrderItem_objects db). OrderItem_product_id i = p) \<and>
          filter (\<lambda>x. Product_pk x = p) (filter_queryset request (Product_objects db))
            = [product] \<and>
          collect p db = Inr db' \<longrightarrow>
            ProductViewSet_destroy filter_queryset collect db request kwargs =
              (Returned \<lparr>resp_data = NoData, resp_status = 204\<rparr>, Product_remove p db') \<and>
            p \<notin> Product_pk ` set (Product_objects (Product_remove p db')))"
proof (intro conjI impI)
  assume "\<exists>i\<in>set (OrderItem_objects db). OrderItem_product_id i = p"
  then have "0 < length (filter (\<lambda>i. OrderItem_product_id i = p) (OrderItem_objects db))"
    by (simp only: filter_some_iff)
  then show "ProductViewSet_destroy filter_queryset collect db request kwargs =
      (Returned
         \<lparr>resp_data =
            Dict [(''error'', ''Can't delete products as it contains one or more order items.'')],
          resp_status = 405\<rparr>, db)"
    using pk
    by (simp add: ProductViewSet_destroy_def kwargs_item_def objects_count_no_args
        objects_filter_def HTTP_405_METHOD_NOT_ALLOWED_def)
  show "is_client_error 405"
    by (simp add: is_client_error_def)
next
  assume h: "\<not> (\<exists>i\<in>set (OrderItem_objects db). OrderItem_product_id i = p) \<and>
     filter (\<lambda>x. Product_pk x = p) (filter_queryset request (Product_objects db)) = [product] \<and>
     collect p db = Inr db'"
  then have none:
    "length (filter (\<lambda>i. OrderItem_product_id i = p) (OrderItem_objects db)) = 0"
    using filter_some_iff [of "\<lambda>i. OrderItem_product_id i = p" "OrderItem_objects db"]
    by simp
  from h have found:
    "filter (\<lambda>x. Product_pk x = p) (filter_queryset request (Product_objects db)) = [product]"
    and collected: "collect p db = Inr db'"
    by simp_all
  from found_row_in_table [OF found] have key: "Product_pk product = p"
    by simp
  have obj:
    "get_object Product_pk (filter_queryset request (Product_objects db)) kwargs = Inr product"
    using pk found
    by (simp add: get_object_def kwargs_item_def objects_get_def objects_filter_def)
  have del: "Model_delete collect Product_remove p db = Inr (Product_remove p db')"
    using collected by (simp add: Model_delete_def)
  show "ProductViewSet_destroy filter_queryset collect db request kwargs =
      (Returned \<lparr>resp_data = NoData, resp_status = 204\<rparr>, Product_remove p db')"
    using pk none obj key del
    by (simp add: ProductViewSet_destroy_def kwargs_item_def objects_count_no_args
        objects_filter_def DestroyModelMixin_destroy_def HTTP_204_NO_CONTENT_def)
  show "p \<notin> Product_pk ` set (Product_objects (Product_remove p db'))"
    by (auto simp: Product_remove_def)
qed

text \<open>
  In the shop, product 1 is on an order line and product 2 is not: deleting product 1 is
  refused and the shop is unchanged; deleting product 2 leaves product 1, and takes the
  review of product 2 along.
\<close>

theorem ProductViewSet_destroy_guard_witness:
  "ProductViewSet_destroy (\<lambda>request queryset. queryset) shop_collect_product shop
       (request_of ''DELETE'' 7 True []) [''pk'' \<mapsto> 1] =
     (Returned
        \<lparr>resp_data =
           Dict [(''error'', ''Can't delete products as it contains one or more order items.'')],
         resp_status = 405\<rparr> :: string outcome, shop) \<and>
   fst (ProductViewSet_destroy (\<lambda>request queryset. queryset) shop_collect_product shop
          (request_of ''DELETE'' 7 True []) [''pk'' \<mapsto> 2]) =
     (Returned \<lparr>resp_data = NoData, resp_status = 204\<rparr> :: string outcome) \<and>
   Product_objects
     (snd (ProductViewSet_destroy (\<lambda>request queryset. queryset) shop_collect_product shop
             (request_of ''DELETE'' 7 True []) [''pk'' \<mapsto> 2] :: string outcome \<times> _)) =
     [\<lparr>Product_pk = 1, Product_collection_id = 10\<rparr>]"
proof -
  let ?all = "\<lambda>(request :: string Request) (queryset :: Product list). queryset"
  let ?delete = "request_of ''DELETE'' 7 True []"
  let ?shop' = "shop\<lparr>Review_objects :=
      filter (\<lambda>r. Review_product_id r \<noteq> 2) (Review_objects shop)\<rparr>"
  have ref: "\<exists>i\<in>set (OrderItem_objects shop). OrderItem_product_id i = 1"
    by (simp add: shop_def)
  have unref: "\<not> (\<exists>i\<in>set (OrderItem_objects shop). OrderItem_product_id i = 2)"
    by (simp add: shop_def)
  have found: "filter (\<lambda>x. Product_pk x = 2) (?all ?delete (Product_objects shop)) =
      [\<lparr>Product_pk = 2, Product_collection_id = 10\<rparr>]"
    by (simp add: shop_def)
  have collected: "shop_collect_product 2 shop = Inr ?shop'"
    by (simp add: shop_collect_product_def shop_def)
  have left: "Product_objects (Product_remove 2 ?shop') =
      [\<lparr>Product_pk = 1, Product_collection_id = 10\<rparr>]"
    by (simp add: shop_def Product_remove_def)
  have k1: "[''pk'' \<mapsto> 1 :: pk] ''pk'' = Some 1" and k2: "[''pk'' \<mapsto> 2 :: pk] ''pk'' = Some 2"
    by simp_all
  have refused: "ProductViewSet_destroy ?all shop_collect_product shop ?delete [''pk'' \<mapsto> 1] =
     (Returned
        \<lparr>resp_data =
           Dict [(''error'', ''Can't delete products as it contains one or more order items.'')],
         resp_status = 405\<rparr> :: string outcome, shop)"
    by (rule ProductViewSet_destroy_guard
          [where kwargs = "[''pk'' \<mapsto> 1]" and p = 1 and db = shop
            and filter_queryset = ?all and request = ?delete, OF k1,
            THEN conjunct1, rule_format, OF ref, THEN conjunct1])
  have deleted: "ProductViewSet_destroy ?all shop_collect_product shop ?delete [''pk'' \<mapsto> 2] =
     (Returned \<lparr>resp_data = NoData, resp_status = 204\<rparr> :: string outcome,
      Product_remove 2 ?shop')"
    by (rule ProductViewSet_destroy_guard
          [where kwargs = "[''pk'' \<mapsto> 2]" and p = 2 and db = shop
            and filter_queryset = ?all and request = ?delete
            and collect = shop_collect_product, OF k2,
            THEN conjunct2, rule_format, OF conjI [OF unref conjI [OF found collected]],
            THEN conjunct1])
  show ?thesis
    using refused deleted left by simp
qed

subsection \<open>Listing and creating orders\<close>

text \<open>
  Claim C3: the queryset of the order list. For a staff user it is every order. For a
  user who is not staff and whose customer record is \<open>customer\<close> (the one row of the
  customer table with that user id), it is the orders of the table whose
  \<^verbatim>\<open>customer_id\<close> is the key of \<open>customer\<close>, and no other.
\<close>

theorem OrderViewSet_get_queryset_scoped:
  "(is_staff (req_user request) \<longrightarrow>
      OrderViewSet_get_queryset db request = Inr (Order_objects db)) \<and>
   (\<not> is_staff (req_user request) \<and>
    filter (\<lambda>c. Some (Customer_user_id c) = user_id (req_user request)) (Customer_objects db)
      = [customer] \<longrightarrow>
      (\<exists>qs. OrderViewSet_get_queryset db request = Inr qs \<and>
            qs = filter (\<lambda>ord. Order_customer_id ord = Customer_pk customer) (Order_objects db) \<and>
            set qs = {ord \<in> set (Order_objects db). Order_customer_id ord = Customer_pk customer}))"
  by (simp add: OrderViewSet_get_queryset_def objects_get_def objects_filter_def)

text \<open>
  In the shop, user 7 is customer 5: as staff the user lists the three orders, otherwise
  the orders 1 and 3.
\<close>

theorem OrderViewSet_get_queryset_scoped_witness:
  "OrderViewSet_get_queryset shop (request_of ''GET'' 7 True []) = Inr (Order_objects shop) \<and>
   OrderViewSet_get_queryset shop (request_of ''GET'' 7 False []) =
     Inr [\<lparr>Order_pk = 1, Order_customer_id = 5\<rparr>, \<lparr>Order_pk = 3, Order_customer_id = 5\<rparr>]"
proof -
  let ?customer = "\<lparr>Customer_pk = 5, Customer_user_id = 7, Customer_fields = ''555-0100''\<rparr>"
  have staff: "is_staff (req_user (request_of ''GET'' 7 True []))"
    by (simp add: request_of_def)
  have own: "\<not> is_staff (req_user (request_of ''GET'' 7 False [])) \<and>
      filter (\<lambda>c. Some (Customer_user_id c) = user_id (req_user (request_of ''GET'' 7 False [])))
        (Customer_objects shop) = [?customer]"
    by (simp add: request_of_def shop_def)
  have orders: "filter (\<lambda>ord. Order_customer_id ord = Customer_pk ?customer) (Order_objects shop) =
      [\<lparr>Order_pk = 1, Order_customer_id = 5\<rparr>, \<lparr>Order_pk = 3, Order_customer_id = 5\<rparr>]"
    by (simp add: shop_def)
  have all: "OrderViewSet_get_queryset shop (request_of ''GET'' 7 True []) =
      Inr (Order_objects shop)"
    by (rule OrderViewSet_get_queryset_scoped
          [where db = shop and request = "request_of ''GET'' 7 True []",
            THEN conjunct1, rule_format, OF staff])
  from OrderViewSet_get_queryset_scoped
         [where db = shop and request = "request_of ''GET'' 7 False []"
            and customer = ?customer, THEN conjunct2, rule_format, OF own]
  have "OrderViewSet_get_queryset shop (request_of ''GET'' 7 False []) =
      Inr (filter (\<lambda>ord. Order_customer_id ord = Customer_pk ?customer) (Order_objects shop))"
    by blast
  with all orders show ?thesis
    by simp
qed

text \<open>
  Claim C4: a POST that creates an order. When the payload is valid and the checkout
  serializer saves \<open>order\<close>, the handler answers with status 201 and with the data of
  the order serializer for \<open>order\<close>, read in the database the save left. The body has the
  type of the order representation, not the type of the payload.
\<close>

theorem OrderViewSet_create_returns_order_representation:
  assumes "is_valid (user_id (req_user request)) (req_data request) db"
    and "save (user_id (req_user request)) (req_data request) db = (Inr order, db')"
  shows "OrderViewSet_create is_valid save order_data db request =
           (Returned \<lparr>resp_data = Data (order_data order db'), resp_status = 201\<rparr>, db')"
  using assms by (simp add: OrderViewSet_create_def HTTP_201_CREATED_def)

text \<open>User 7 checks out against the three orders of the shop: order 4 is created.\<close>

theorem OrderViewSet_create_returns_order_representation_witness:
  "OrderViewSet_create shop_is_valid shop_save shop_order_data (Order_objects shop)
       (request_of ''POST'' 7 False ''cart a1'') =
     (Returned \<lparr>resp_data = Data (4, 5), resp_status = 201\<rparr>,
      Order_objects shop @ [\<lparr>Order_pk = 4, Order_customer_id = 5\<rparr>])"
proof -
  let ?request = "request_of ''POST'' 7 False ''cart a1''"
  let ?order = "\<lparr>Order_pk = 4, Order_customer_id = 5\<rparr>"
  have valid: "shop_is_valid (user_id (req_user ?request)) (req_data ?request) (Order_objects shop)"
    by (simp add: shop_is_valid_def request_of_def)
  have saved: "shop_save (user_id (req_user ?request)) (req_data ?request) (Order_objects shop) =
      (Inr ?order, Order_objects shop @ [?order])"
    by (simp add: shop_save_def shop_def Let_def)
  have "shop_order_data ?order (Order_objects shop @ [?order]) = (4, 5)"
    by (simp add: shop_order_data_def)
  with OrderViewSet_create_returns_order_representation
         [of shop_is_valid ?request "Order_objects shop" shop_save ?order
            "Order_objects shop @ [?order]" shop_order_data, OF valid saved]
  show ?thesis
    by simp
qed

subsection \<open>Cart items and reviews\<close>

text \<open>
  Claim C5: the serializer class of the cart-items route is the one for adding an item
  under POST, the one for updating an item under PATCH, and the default one under every
  other verb.
\<close>

theorem CartItemViewSet_serializer_by_verb:
  "(req_method request = ''POST'' \<longrightarrow>
      CartItemViewSet_get_serializer_class request = AddCartItemSerializer) \<and>
   (req_method request = ''PATCH'' \<longrightarrow>
      CartItemViewSet_get_serializer_class request = UpdateCartItemSerializer) \<and>
   (req_method request \<noteq> ''POST'' \<and> req_method request \<noteq> ''PATCH'' \<longrightarrow>
      CartItemViewSet_get_serializer_class request = CartItemSerializer)"
  by (simp add: CartItemViewSet_get_serializer_class_def)

theorem CartItemViewSet_serializer_by_verb_witness:
  "CartItemViewSet_get_serializer_class (anonymous_request ''POST'' ''x'') =
     AddCartItemSerializer \<and>
   CartItemViewSet_get_serializer_class (anonymous_request ''PATCH'' ''x'') =
     UpdateCartItemSerializer \<and>
   CartItemViewSet_get_serializer_class (anonymous_request ''GET'' []) = CartItemSerializer \<and>
   CartItemViewSet_get_serializer_class (anonymous_request ''DELETE'' []) = CartItemSerializer"
proof -
  have post: "req_method (anonymous_request ''POST'' ''x'') = ''POST''"
    and patch: "req_method (anonymous_request ''PATCH'' ''x'') = ''PATCH''"
    and get: "req_method (anonymous_request ''GET'' []) \<noteq> ''POST'' \<and>
              req_method (anonymous_request ''GET'' []) \<noteq> ''PATCH''"
    and delete: "req_method (anonymous_request ''DELETE'' []) \<noteq> ''POST'' \<and>
                 req_method (anonymous_request ''DELETE'' []) \<noteq> ''PATCH''"
    by (simp_all add: anonymous_request_def)
  note by_verb = CartItemViewSet_serializer_by_verb
  show ?thesis
    using by_verb [of "anonymous_request ''POST'' ''x''", THEN conjunct1, rule_format, OF post]
      by_verb [of "anonymous_request ''PATCH'' ''x''", THEN conjunct2, THEN conjunct1,
        rule_format, OF patch]
      by_verb [of "anonymous_request ''GET'' []", THEN conjunct2, THEN conjunct2,
        rule_format, OF get]
      by_verb [of "anonymous_request ''DELETE'' []", THEN conjunct2, THEN conjunct2,
        rule_format, OF delete]
    by simp
qed

text \<open>
  Claim C6: the querysets of the nested routes. With the key \<open>p\<close> of the product in the
  URL, the reviews route resolves to the reviews whose \<^verbatim>\<open>product_id\<close> is \<open>p\<close>, and
  no other; with the key \<open>c\<close> of the cart in the URL, the cart-items route resolves to the
  cart items whose \<^verbatim>\<open>cart_id\<close> is \<open>c\<close>, and no other.
\<close>

theorem nested_get_queryset_scoped:
  "(review_kwargs ''product_pk'' = Some p \<longrightarrow>
      (\<exists>qs. ReviewViewSet_get_queryset db review_kwargs = Inr qs \<and>
            set qs = {r \<in> set (Review_objects db). Review_product_id r = p})) \<and>
   (item_kwargs ''cart_pk'' = Some c \<longrightarrow>
      (\<exists>qs. CartItemViewSet_get_queryset db item_kwargs = Inr qs \<and>
            set qs = {i \<in> set (CartItem_objects db). CartItem_cart_id i = c}))"
  by (simp add: ReviewViewSet_get_queryset_def CartItemViewSet_get_queryset_def
      kwargs_item_def objects_filter_def select_related_def)

text \<open>In the shop: the reviews of product 1 and the items of cart \<open>a1\<close>.\<close>

theorem nested_get_queryset_scoped_witness:
  "(\<exists>qs. ReviewViewSet_get_queryset shop [''product_pk'' \<mapsto> 1] = Inr qs \<and>
         set qs = {\<lparr>Review_pk = 1, Review_product_id = 1\<rparr>,
                   \<lparr>Review_pk = 3, Review_product_id = 1\<rparr>}) \<and>
   (\<exists>qs. CartItemViewSet_get_queryset shop [''cart_pk'' \<mapsto> ''a1''] = Inr qs \<and>
         set qs = {\<lparr>CartItem_pk = 1, CartItem_cart_id = ''a1''\<rparr>,
                   \<lparr>CartItem_pk = 3, CartItem_cart_id = ''a1''\<rparr>})"
proof -
  have k: "[''product_pk'' \<mapsto> 1 :: pk] ''product_pk'' = Some 1"
    and k': "[''cart_pk'' \<mapsto> ''a1''] ''cart_pk'' = Some ''a1''"
    by simp_all
  have reviews: "{r \<in> set (Review_objects shop). Review_product_id r = 1} =
      {\<lparr>Review_pk = 1, Review_product_id = 1\<rparr>, \<lparr>Review_pk = 3, Review_product_id = 1\<rparr>}"
    by (auto simp: shop_def)
  have items: "{i \<in> set (CartItem_objects shop). CartItem_cart_id i = ''a1''} =
      {\<lparr>CartItem_pk = 1, CartItem_cart_id = ''a1''\<rparr>, \<lparr>CartItem_pk = 3, CartItem_cart_id = ''a1''\<rparr>}"
    by (auto simp: shop_def)
  note scoped = nested_get_queryset_scoped
      [where db = shop and review_kwargs = "[''product_pk'' \<mapsto> 1]" and p = 1
         and item_kwargs = "[''cart_pk'' \<mapsto> ''a1'']" and c = "''a1''"]
  show ?thesis
    using scoped [THEN conjunct1, rule_format, OF k] scoped [THEN conjunct2, rule_format, OF k']
    unfolding reviews items by blast
qed

subsection \<open>Customers\<close>

text \<open>
  Claim C7: the \<^verbatim>\<open>me\<close> action of a user whose customer record is \<open>customer\<close>, the one
  row of the customer table with the user's id. A GET answers with the representation of
  \<open>customer\<close>. A PUT whose payload validates to \<open>v\<close> writes \<open>v\<close> on
  \<open>customer\<close>, stores the result under the key of \<open>customer\<close> in place of the old row
  (the serializer leaves the key alone), and answers with the representation of the
  updated record.
\<close>

theorem CustomerViewSet_me_get_put:
  assumes own: "filter (\<lambda>c. Some (Customer_user_id c) = user_id (req_user request))
                  (Customer_objects db) = [customer]"
  shows "Some (Customer_user_id customer) = user_id (req_user request) \<and>
         (req_method request = ''GET'' \<longrightarrow>
            CustomerViewSet_me run_validation set_attrs to_representation db request =
              (Returned \<lparr>resp_data = Data (to_representation customer), resp_status = 200\<rparr>,
               db)) \<and>
         (req_method request = ''PUT'' \<and> run_validation (req_data request) = Some v \<and>
          Customer_pk (set_attrs customer v) = Customer_pk customer \<longrightarrow>
            CustomerViewSet_me run_validation set_attrs to_representation db request =
              (Returned \<lparr>resp_data = Data (to_representation (set_attrs customer v)),
                         resp_status = 200\<rparr>,
               db\<lparr>Customer_objects :=
                    map (\<lambda>r. if Customer_pk r = Customer_pk customer
                              then set_attrs customer v else r)
                      (Customer_objects db)\<rparr>))"
proof -
  from found_row_in_table [OF own]
  have mem: "customer \<in> set (Customer_objects db)"
    and uid: "Some (Customer_user_id customer) = user_id (req_user request)"
    by simp_all
  have got: "objects_get (\<lambda>c. Some (Customer_user_id c) = user_id (req_user request))
               (Customer_objects db) = Inr customer"
    using own by (simp add: objects_get_def objects_filter_def)
  have ex: "list_ex (\<lambda>r. Customer_pk r = Customer_pk customer) (Customer_objects db)"
    using mem by (auto simp: list_ex_iff)
  show ?thesis
    using uid got ex
    by (simp add: CustomerViewSet_me_def Customer_save_def HTTP_200_OK_def Let_def)
qed

text \<open>
  User 7 of the shop reads the profile of customer 5 and then replaces its remaining
  columns; customer 6 is untouched.
\<close>

theorem CustomerViewSet_me_get_put_witness:
  "CustomerViewSet_me shop_run_validation shop_set_attrs shop_to_representation shop
       (request_of ''GET'' 7 False []) =
     (Returned \<lparr>resp_data = Data (5, 7, ''555-0100''), resp_status = 200\<rparr>, shop) \<and>
   fst (CustomerViewSet_me shop_run_validation shop_set_attrs shop_to_representation shop
          (request_of ''PUT'' 7 False ''555-0199'')) =
     Returned \<lparr>resp_data = Data (5, 7, ''555-0199''), resp_status = 200\<rparr> \<and>
   Customer_objects
     (snd (CustomerViewSet_me shop_run_validation shop_set_attrs shop_to_representation shop
             (request_of ''PUT'' 7 False ''555-0199''))) =
     [\<lparr>Customer_pk = 5, Customer_user_id = 7, Customer_fields = ''555-0199''\<rparr>,
      \<lparr>Customer_pk = 6, Customer_user_id = 8, Customer_fields = ''555-0101''\<rparr>]"
proof -
  let ?customer = "\<lparr>Customer_pk = 5, Customer_user_id = 7, Customer_fields = ''555-0100''\<rparr>"
  let ?get = "request_of ''GET'' 7 False []"
  let ?put = "request_of ''PUT'' 7 False ''555-0199''"
  have own_get: "filter (\<lambda>c. Some (Customer_user_id c) = user_id (req_user ?get))
      (Customer_objects shop) = [?customer]"
    and own_put: "filter (\<lambda>c. Some (Customer_user_id c) = user_id (req_user ?put))
      (Customer_objects shop) = [?customer]"
    by (simp_all add: request_of_def shop_def)
  have is_get: "req_method ?get = ''GET''"
    by (simp add: request_of_def)
  have is_put: "req_method ?put = ''PUT'' \<and> shop_run_validation (req_data ?put) = Some ''555-0199'' \<and>
      Customer_pk (shop_set_attrs ?customer ''555-0199'') = Customer_pk ?customer"
    by (simp add: request_of_def shop_run_validation_def shop_set_attrs_def)
  have read: "CustomerViewSet_me shop_run_validation shop_set_attrs shop_to_representation shop ?get =
      (Returned \<lparr>resp_data = Data (shop_to_representation ?customer), resp_status = 200\<rparr>, shop)"
    by (rule CustomerViewSet_me_get_put
          [where db = shop and request = ?get, OF own_get, THEN conjunct2, THEN conjunct1,
            rule_format, OF is_get])
  have written:
    "CustomerViewSet_me shop_run_validation shop_set_attrs shop_to_representation shop ?put =
      (Returned \<lparr>resp_data = Data (shop_to_representation (shop_set_attrs ?customer ''555-0199'')),
                 resp_status = 200\<rparr>,
       shop\<lparr>Customer_objects :=
              map (\<lambda>r. if Customer_pk r = Customer_pk ?customer
                        then shop_set_attrs ?customer ''555-0199'' else r)
                (Customer_objects shop)\<rparr>)"
    by (rule CustomerViewSet_me_get_put
          [where db = shop and request = ?put and run_validation = shop_run_validation
             and set_attrs = shop_set_attrs and v = "''555-0199''",
            OF own_put, THEN conjunct2, THEN conjunct2, rule_format, OF is_put])
  show ?thesis
    unfolding read written
    by (simp add: shop_to_representation_def shop_set_attrs_def shop_def)
qed



text \<open>
  Claim C9: the permissions of the customer endpoints. Whatever the permission classes
  of the class or of the action, \<^verbatim>\<open>get_permissions\<close> is \<^verbatim>\<open>AllowAny\<close> under GET and
  \<^verbatim>\<open>IsAuthenticated\<close> under every other verb: a GET passes for every caller, and any
  other request passes exactly when its user is logged in, staff or not.
\<close>

theorem CustomerViewSet_permissions_by_verb:
  "CustomerViewSet_get_permissions permission_classes request =
     (if req_method request = ''GET'' then [AllowAny] else [IsAuthenticated]) \<and>
   (req_method request = ''GET'' \<longrightarrow>
      check_permissions (CustomerViewSet_get_permissions permission_classes request) request) \<and>
   (req_method request \<noteq> ''GET'' \<longrightarrow>
      check_permissions (CustomerViewSet_get_permissions permission_classes request) request =
        is_authenticated (req_user request))"
  by (simp add: CustomerViewSet_get_permissions_def check_permissions_def)

text \<open>
  A visitor may GET; a logged-in user who is not staff may POST, although the class asks
  for an admin; a visitor may not POST.
\<close>

theorem CustomerViewSet_permissions_by_verb_witness:
  "check_permissions (CustomerViewSet_get_permissions [IsAdminUser] (anonymous_request ''GET'' []))
     (anonymous_request ''GET'' []) \<and>
   check_permissions
     (CustomerViewSet_get_permissions [IsAdminUser] (request_of ''POST'' 8 False ''x''))
     (request_of ''POST'' 8 False ''x'') \<and>
   \<not> check_permissions
     (CustomerViewSet_get_permissions [IsAdminUser] (anonymous_request ''POST'' ''x''))
     (anonymous_request ''POST'' ''x'') \<and>
   \<not> has_permission IsAdminUser (request_of ''POST'' 8 False ''x'')"
proof -
  have get: "req_method (anonymous_request ''GET'' []) = ''GET''"
    and post: "req_method (request_of ''POST'' 8 False ''x'') \<noteq> ''GET''"
    and post': "req_method (anonymous_request ''POST'' ''x'') \<noteq> ''GET''"
    by (simp_all add: anonymous_request_def request_of_def)
  note by_verb = CustomerViewSet_permissions_by_verb [where permission_classes = "[IsAdminUser]"]
  show ?thesis
    using by_verb [of "anonymous_request ''GET'' []", THEN conjunct2, THEN conjunct1,
        rule_format, OF get]
      by_verb [of "request_of ''POST'' 8 False ''x''", THEN conjunct2, THEN conjunct2,
        rule_format, OF post]
      by_verb [of "anonymous_request ''POST'' ''x''", THEN conjunct2, THEN conjunct2,
        rule_format, OF post']
    by (simp add: anonymous_request_def request_of_def AnonymousUser_def)
qed

text \<open>
  Claim C10: the \<^verbatim>\<open>me\<close> action of a user with no customer record. Under every verb
  the handler raises \<^verbatim>\<open>DoesNotExist\<close> and leaves the database as it was: no record is
  created. The exception handler of the framework has no answer for this exception, so
  the request ends with status 500, which is not a client error.
\<close>

theorem CustomerViewSet_me_without_customer:
  assumes "filter (\<lambda>c. Some (Customer_user_id c) = user_id (req_user request))
             (Customer_objects db) = []"
  shows "CustomerViewSet_me run_validation set_attrs to_representation db request =
           (Raised DoesNotExist, db) \<and>
         exception_handler DoesNotExist = None \<and>
         final_status (fst (CustomerViewSet_me run_validation set_attrs to_representation
                         db request)) = 500 \<and>
         \<not> is_client_error 500"
  using assms
  by (simp add: CustomerViewSet_me_def objects_get_def objects_filter_def final_status_def
      is_client_error_def)

text \<open>User 9 is logged in and has no customer record in the shop.\<close>

theorem CustomerViewSet_me_without_customer_witness:
  "CustomerViewSet_me shop_run_validation shop_set_attrs shop_to_representation shop
       (request_of ''GET'' 9 False []) = (Raised DoesNotExist, shop) \<and>
   CustomerViewSet_me shop_run_validation shop_set_attrs shop_to_representation shop
       (request_of ''PUT'' 9 False ''555-0199'') = (Raised DoesNotExist, shop) \<and>
   final_status (fst (CustomerViewSet_me shop_run_validation shop_set_attrs
                        shop_to_representation shop (request_of ''GET'' 9 False []))) = 500"
proof -
  have none: "filter (\<lambda>c. Some (Customer_user_id c) = user_id (req_user (request_of ''GET'' 9 False [])))
      (Customer_objects shop) = []"
    and none': "filter (\<lambda>c. Some (Customer_user_id c) =
        user_id (req_user (request_of ''PUT'' 9 False ''555-0199''))) (Customer_objects shop) = []"
    by (simp_all add: request_of_def shop_def)
  show ?thesis
    using CustomerViewSet_me_without_customer
            [where db = shop and request = "request_of ''GET'' 9 False []"
               and run_validation = shop_run_validation and set_attrs = shop_set_attrs
               and to_representation = shop_to_representation, OF none]
          CustomerViewSet_me_without_customer
            [where db = shop and request = "request_of ''PUT'' 9 False ''555-0199''"
               and run_validation = shop_run_validation and set_attrs = shop_set_attrs
               and to_representation = shop_to_representation, OF none']
    by blast
qed

end
